theory Spec2Isabelle
  imports Main
begin

section \<open>The Tomato Clock background service\<close>

text \<open>
  A shallow embedding of the class \<open>TomatoClockService\<close> of the extension's service
  worker (the version with history tracking). Every method becomes a function from the
  service to the service. What the methods read from the host is a parameter:
  \<^item> \<open>now\<close> is the value of \<open>Date.now()\<close> (milliseconds) during the call; one call
    of a method reads one clock value;
  \<^item> a \<open>host\<close> says whether the two storage areas answer or reject during the call, and
    carries the two \<open>Date\<close> formatting functions of the host.
  The alarm \<open>'tomato-timer'\<close> and the storage keys the service writes are fields of the
  modelled service, next to the fields of the JavaScript object. Notifications, the badge
  and the broadcast to the popup are fire-and-forget calls with no effect on any of these
  fields and are left out. Each method runs to its end before the next event is handled.
  JavaScript numbers are modelled as \<open>int\<close>: every number the service computes is an
  integer as long as the settings are.
\<close>

subsection \<open>Data\<close>

text \<open>
  The phase is one of the strings \<open>'work'\<close>, \<open>'short-break'\<close> and \<open>'long-break'\<close>; the
  service assigns no other, so the \<open>default\<close> branch of \<open>getCurrentPhaseDuration\<close> is
  never taken and has no counterpart here.
\<close>

datatype phase = Work | ShortBreak | LongBreak

record timer_state =
  isRunning :: bool
  currentPhase :: phase
  currentCycle :: int
  timeRemaining :: int
  endTime :: "int option"

record timer_settings =
  workDuration :: int
  shortBreakDuration :: int
  longBreakDuration :: int

text \<open>
  The \<open>settings\<close> object of a message: any subset of the three keys. It is merged into
  the service's settings by object spread, so a key that is absent keeps its old value.
\<close>

record settings_patch =
  workDurationP :: "int option"
  shortBreakDurationP :: "int option"
  longBreakDurationP :: "int option"

text \<open>
  One entry of the history: the object literal built by \<open>recordCompletedPomodoro\<close>, with
  its keys \<open>id\<close>, \<open>date\<close>, \<open>startTime\<close>, \<open>duration\<close> and \<open>type\<close>.
\<close>

record session_record =
  rec_id :: int
  rec_date :: string
  rec_startTime :: string
  rec_duration :: int
  rec_type :: string

record service =
  timerState :: timer_state
  settings :: timer_settings
  currentTaskType :: string
  sessionStartTime :: "int option"
  alarm :: "int option"
  storedState :: "timer_state option"
  storedSettings :: "timer_settings option"
  syncHistory :: "session_record list option"
  localHistory :: "session_record list option"

text \<open>
  \<open>alarm\<close> is the alarm \<open>'tomato-timer'\<close> of \<open>chrome.alarms\<close>: \<open>None\<close> when it is not
  armed, \<open>Some seconds\<close> when \<open>startAlarm(seconds)\<close> armed it (the delay handed to the
  host is \<open>seconds / 60\<close> minutes). \<open>storedState\<close> is the key \<open>timerState\<close> of
  \<open>chrome.storage.local\<close>, \<open>storedSettings\<close> the key \<open>timerSettings\<close> of
  \<open>chrome.storage.sync\<close>, \<open>syncHistory\<close> and \<open>localHistory\<close> the key \<open>history\<close> of the
  two areas; \<open>None\<close> is an absent key.
\<close>

record host =
  syncOk :: bool
  localOk :: bool
  isoDate :: "int \<Rightarrow> string"
  timeString :: "int \<Rightarrow> string"

text \<open>
  \<open>syncOk\<close> and \<open>localOk\<close>: the calls on \<open>chrome.storage.sync\<close> and
  \<open>chrome.storage.local\<close> resolve (\<open>True\<close>) or reject (\<open>False\<close>) during this call.
  \<open>isoDate t\<close> is \<open>new Date(t).toISOString().split('T')[0]\<close> and \<open>timeString t\<close> is
  \<open>new Date(t).toTimeString().slice(0, 5)\<close>.
\<close>

text \<open>The default task type, the two characters of the source's literal in UTF-8.\<close>

definition defaultTaskType :: string where
  "defaultTaskType = map char_of [0xE5, 0xB7, 0xA5, 0xE4, 0xBD, 0x9C :: nat]"

text \<open>The fields the constructor sets.\<close>

definition initialTimerState :: timer_state where
  "initialTimerState =
     \<lparr>isRunning = False, currentPhase = Work, currentCycle = 1,
      timeRemaining = 25 * 60, endTime = None\<rparr>"

definition defaultSettings :: timer_settings where
  "defaultSettings = \<lparr>workDuration = 25, shortBreakDuration = 5, longBreakDuration = 15\<rparr>"

definition constructor :: "service \<Rightarrow> service" where
  "constructor w =
     w\<lparr>timerState := initialTimerState, settings := defaultSettings,
       currentTaskType := defaultTaskType, sessionStartTime := None\<rparr>"

text \<open>The service of a first installation: nothing stored, no alarm armed.\<close>

definition initialService :: service where
  "initialService =
     \<lparr>timerState = initialTimerState, settings = defaultSettings,
      currentTaskType = defaultTaskType, sessionStartTime = None, alarm = None,
      storedState = None, storedSettings = None, syncHistory = None, localHistory = None\<rparr>"

subsection \<open>JavaScript helpers\<close>

text \<open>
  The test \<open>this.timerState.endTime\<close> in a condition: \<open>null\<close> and the number \<open>0\<close> are
  falsy. Where the test has passed, the value is a number, so the \<open>None\<close> branch of
  the \<open>case\<close> that follows it in \<open>updateTimeRemaining\<close> and \<open>restoreTimer\<close> is never
  taken.
\<close>

definition truthyTime :: "int option \<Rightarrow> bool" where
  "truthyTime t = (case t of None \<Rightarrow> False | Some e \<Rightarrow> e \<noteq> 0)"

text \<open>\<open>{ ...settings, ...patch }\<close>\<close>

definition mergeSettings :: "timer_settings \<Rightarrow> settings_patch \<Rightarrow> timer_settings" where
  "mergeSettings s p =
     \<lparr>workDuration = (case workDurationP p of None \<Rightarrow> workDuration s | Some v \<Rightarrow> v),
      shortBreakDuration =
        (case shortBreakDurationP p of None \<Rightarrow> shortBreakDuration s | Some v \<Rightarrow> v),
      longBreakDuration =
        (case longBreakDurationP p of None \<Rightarrow> longBreakDuration s | Some v \<Rightarrow> v)\<rparr>"

text \<open>\<open>xs.slice(-n)\<close>: the last \<open>n\<close> elements, all of them when there are fewer.\<close>

definition sliceLast :: "nat \<Rightarrow> 'a list \<Rightarrow> 'a list" where
  "sliceLast n xs = drop (length xs - n) xs"

text \<open>\<open>Math.max(0, Math.floor((endTime - now) / 1000))\<close>\<close>

definition timeLeftAt :: "int \<Rightarrow> int \<Rightarrow> int" where
  "timeLeftAt e now = max 0 ((e - now) div 1000)"

subsection \<open>Storage and alarm\<close>

text \<open>
  A call on a storage area that rejects is caught and logged by every method, and the
  method goes on. The objects the service stores have all their keys, so the spread that
  merges a loaded object into the constructor's one replaces it.
\<close>

definition loadState :: "host \<Rightarrow> service \<Rightarrow> service" where
  "loadState h w =
     (if localOk h then
        (case storedState w of None \<Rightarrow> w | Some ts \<Rightarrow> w\<lparr>timerState := ts\<rparr>)
      else w)"

definition saveState :: "host \<Rightarrow> service \<Rightarrow> service" where
  "saveState h w = (if localOk h then w\<lparr>storedState := Some (timerState w)\<rparr> else w)"

definition loadSettings :: "host \<Rightarrow> service \<Rightarrow> service" where
  "loadSettings h w =
     (if syncOk h then
        (case storedSettings w of None \<Rightarrow> w | Some s \<Rightarrow> w\<lparr>settings := s\<rparr>)
      else w)"

definition saveSettings :: "host \<Rightarrow> service \<Rightarrow> service" where
  "saveSettings h w = (if syncOk h then w\<lparr>storedSettings := Some (settings w)\<rparr> else w)"

definition clearAlarm :: "service \<Rightarrow> service" where
  "clearAlarm w = w\<lparr>alarm := None\<rparr>"

definition startAlarm :: "int \<Rightarrow> service \<Rightarrow> service" where
  "startAlarm seconds w = (clearAlarm w)\<lparr>alarm := Some seconds\<rparr>"

subsection \<open>History\<close>

text \<open>
  The body of each \<open>try\<close> block of \<open>recordCompletedPomodoro\<close>: read the key (an absent
  key is the empty array), push the record, keep the last 1000.
\<close>

definition limitedHistory :: "session_record list option \<Rightarrow> session_record \<Rightarrow> session_record list" where
  "limitedHistory stored r =
     (let history = (case stored of None \<Rightarrow> [] | Some xs \<Rightarrow> xs) @ [r]
      in sliceLast 1000 history)"

definition sessionStart :: "int \<Rightarrow> service \<Rightarrow> int" where
  "sessionStart now w =
     (case sessionStartTime w of
        None \<Rightarrow> now - workDuration (settings w) * 60 * 1000
      | Some t \<Rightarrow> t)"

definition newRecord :: "host \<Rightarrow> int \<Rightarrow> service \<Rightarrow> session_record" where
  "newRecord h now w =
     \<lparr>rec_id = now,
      rec_date = isoDate h now,
      rec_startTime = timeString h (sessionStart now w),
      rec_duration = workDuration (settings w),
      rec_type = (if currentTaskType w = [] then defaultTaskType else currentTaskType w)\<rparr>"

definition recordCompletedPomodoro :: "host \<Rightarrow> int \<Rightarrow> service \<Rightarrow> service" where
  "recordCompletedPomodoro h now w =
     (let r = newRecord h now w;
          w1 = (if syncOk h then w\<lparr>syncHistory := Some (limitedHistory (syncHistory w) r)\<rparr>
                else if localOk h then
                  w\<lparr>localHistory := Some (limitedHistory (localHistory w) r)\<rparr>
                else w)
      in w1\<lparr>sessionStartTime := None\<rparr>)"

definition clearHistory :: "host \<Rightarrow> service \<Rightarrow> service" where
  "clearHistory h w =
     (if syncOk h then
        (if localOk h then w\<lparr>syncHistory := None, localHistory := None\<rparr>
         else w\<lparr>syncHistory := None\<rparr>)
      else w)"

subsection \<open>The timer\<close>

definition getCurrentPhaseDuration :: "service \<Rightarrow> int" where
  "getCurrentPhaseDuration w =
     (case currentPhase (timerState w) of
        Work \<Rightarrow> workDuration (settings w) * 60
      | ShortBreak \<Rightarrow> shortBreakDuration (settings w) * 60
      | LongBreak \<Rightarrow> longBreakDuration (settings w) * 60)"

definition startTimer :: "host \<Rightarrow> int \<Rightarrow> service \<Rightarrow> service" where
  "startTimer h now w =
     (let w1 = (if timeRemaining (timerState w) \<le> 0
                then w\<lparr>timerState := (timerState w)\<lparr>timeRemaining := getCurrentPhaseDuration w\<rparr>\<rparr>
                else w);
          w2 = w1\<lparr>timerState := (timerState w1)
                 \<lparr>isRunning := True,
                  endTime := Some (now + timeRemaining (timerState w1) * 1000)\<rparr>\<rparr>;
          w3 = (if currentPhase (timerState w2) = Work
                then w2\<lparr>sessionStartTime := Some now\<rparr> else w2);
          w4 = startAlarm (timeRemaining (timerState w3)) w3
      in saveState h w4)"

definition pauseTimer :: "host \<Rightarrow> service \<Rightarrow> service" where
  "pauseTimer h w =
     (let w1 = w\<lparr>timerState := (timerState w)\<lparr>isRunning := False, endTime := None\<rparr>\<rparr>;
          w2 = clearAlarm w1
      in saveState h w2)"

definition resetTimer :: "host \<Rightarrow> service \<Rightarrow> service" where
  "resetTimer h w =
     (let w1 = w\<lparr>timerState := (timerState w)
                 \<lparr>isRunning := False, currentPhase := Work, currentCycle := 1,
                  timeRemaining := workDuration (settings w) * 60, endTime := None\<rparr>\<rparr>;
          w2 = clearAlarm w1
      in saveState h w2)"

text \<open>
  In the source the inner test \<open>currentPhase === 'work'\<close> of the second branch follows the
  assignment of \<open>'work'\<close>, so the increment always runs there. The test
  \<open>currentCycle % 4 === 0\<close> is divisibility by four, which \<open>mod\<close> decides for every
  integer, negative ones too.
\<close>

definition moveToNextPhase :: "service \<Rightarrow> service" where
  "moveToNextPhase w =
     (if currentPhase (timerState w) = Work then
        (if currentCycle (timerState w) mod 4 = 0 then
           w\<lparr>timerState := (timerState w)
               \<lparr>currentPhase := LongBreak,
                timeRemaining := longBreakDuration (settings w) * 60\<rparr>\<rparr>
         else
           w\<lparr>timerState := (timerState w)
               \<lparr>currentPhase := ShortBreak,
                timeRemaining := shortBreakDuration (settings w) * 60\<rparr>\<rparr>)
      else
        (let w1 = w\<lparr>timerState := (timerState w)
                    \<lparr>currentPhase := Work,
                     timeRemaining := workDuration (settings w) * 60\<rparr>\<rparr>
         in if currentPhase (timerState w1) = Work
            then w1\<lparr>timerState := (timerState w1)
                      \<lparr>currentCycle := currentCycle (timerState w1) + 1\<rparr>\<rparr>
            else w1))"

definition onTimerComplete :: "host \<Rightarrow> int \<Rightarrow> service \<Rightarrow> service" where
  "onTimerComplete h now w =
     (let w1 = w\<lparr>timerState := (timerState w)\<lparr>isRunning := False, endTime := None\<rparr>\<rparr>;
          w2 = (if currentPhase (timerState w1) = Work
                then recordCompletedPomodoro h now w1 else w1);
          w3 = moveToNextPhase w2
      in saveState h w3)"

definition skipPhase :: "host \<Rightarrow> int \<Rightarrow> service \<Rightarrow> service" where
  "skipPhase h now w = onTimerComplete h now (clearAlarm w)"

definition updateTimeRemaining :: "host \<Rightarrow> int \<Rightarrow> service \<Rightarrow> service" where
  "updateTimeRemaining h now w =
     (if isRunning (timerState w) \<and> truthyTime (endTime (timerState w)) then
        (case endTime (timerState w) of
           None \<Rightarrow> w
         | Some e \<Rightarrow>
             (let timeLeft = timeLeftAt e now
              in if timeLeft \<noteq> timeRemaining (timerState w) then
                   (let w1 = w\<lparr>timerState := (timerState w)\<lparr>timeRemaining := timeLeft\<rparr>\<rparr>
                    in if timeLeft \<le> 0 then onTimerComplete h now w1 else w1)
                 else w))
      else w)"

text \<open>
  The part of \<open>init\<close> under the comment "Restore timer if it was running", and \<open>init\<close>
  itself: it runs on the object the constructor has just filled in.
\<close>

definition restoreTimer :: "host \<Rightarrow> int \<Rightarrow> service \<Rightarrow> service" where
  "restoreTimer h now w =
     (if isRunning (timerState w) \<and> truthyTime (endTime (timerState w)) then
        (case endTime (timerState w) of
           None \<Rightarrow> w
         | Some e \<Rightarrow>
             (let timeLeft = timeLeftAt e now
              in if timeLeft > 0 then
                   startAlarm timeLeft
                     (w\<lparr>timerState := (timerState w)\<lparr>timeRemaining := timeLeft\<rparr>\<rparr>)
                 else onTimerComplete h now w))
      else w)"

definition init :: "host \<Rightarrow> int \<Rightarrow> service \<Rightarrow> service" where
  "init h now w = restoreTimer h now (loadSettings h (loadState h w))"

text \<open>A start of the worker: \<open>new TomatoClockService()\<close>.\<close>

definition startup :: "host \<Rightarrow> int \<Rightarrow> service \<Rightarrow> service" where
  "startup h now w = init h now (constructor w)"

subsection \<open>Messages and events\<close>

datatype message =
    GET_TIMER_STATE
  | START_TIMER "settings_patch option"
  | PAUSE_TIMER
  | SKIP_PHASE
  | RESET_TIMER
  | UPDATE_SETTINGS settings_patch
  | GET_HISTORY
  | EXPORT_HISTORY
  | CLEAR_HISTORY
  | SET_TASK_TYPE string
  | UNKNOWN

text \<open>
  \<open>handleMessage\<close>, as far as it changes the service; the response it sends is left out.
  \<open>UPDATE_SETTINGS\<close> with no \<open>settings\<close> key is the empty patch.
\<close>

fun handleMessage :: "host \<Rightarrow> int \<Rightarrow> message \<Rightarrow> service \<Rightarrow> service" where
  "handleMessage h now GET_TIMER_STATE w = w"
| "handleMessage h now (START_TIMER ps) w =
     startTimer h now
       (case ps of None \<Rightarrow> w | Some p \<Rightarrow> w\<lparr>settings := mergeSettings (settings w) p\<rparr>)"
| "handleMessage h now PAUSE_TIMER w = pauseTimer h w"
| "handleMessage h now SKIP_PHASE w = skipPhase h now w"
| "handleMessage h now RESET_TIMER w = resetTimer h w"
| "handleMessage h now (UPDATE_SETTINGS p) w =
     saveSettings h (w\<lparr>settings := mergeSettings (settings w) p\<rparr>)"
| "handleMessage h now GET_HISTORY w = w"
| "handleMessage h now EXPORT_HISTORY w = w"
| "handleMessage h now CLEAR_HISTORY w = clearHistory h w"
| "handleMessage h now (SET_TASK_TYPE t) w =
     w\<lparr>currentTaskType := (if t = [] then defaultTaskType else t)\<rparr>"
| "handleMessage h now UNKNOWN w = w"

text \<open>
  What the host delivers to the service: a message of the popup, the alarm, the tick of
  \<open>setInterval\<close>, and a restart of the worker (the constructor, then \<open>init\<close>). The host
  fires an alarm only when it is armed, and at most once for each arming.
\<close>

datatype event = Message message | AlarmFired | Tick | Restart

fun step :: "host \<Rightarrow> int \<Rightarrow> event \<Rightarrow> service \<Rightarrow> service" where
  "step h now (Message m) w = handleMessage h now m w"
| "step h now AlarmFired w =
     (case alarm w of None \<Rightarrow> w | Some d \<Rightarrow> onTimerComplete h now (w\<lparr>alarm := None\<rparr>))"
| "step h now Tick w = updateTimeRemaining h now w"
| "step h now Restart w = startup h now w"

fun run :: "host \<Rightarrow> (int \<times> event) list \<Rightarrow> service \<Rightarrow> service" where
  "run h [] w = w"
| "run h ((now, ev) # evs) w = run h evs (step h now ev w)"

inductive reachable :: "service \<Rightarrow> bool" where
  reachable_initial: "reachable initialService"
| reachable_step: "reachable w \<Longrightarrow> reachable (step h now ev w)"

text \<open>A host whose storage answers; its formatting functions print nothing.\<close>

definition okHost :: host where
  "okHost = \<lparr>syncOk = True, localOk = True, isoDate = (\<lambda>t. []), timeString = (\<lambda>t. [])\<rparr>"

subsection \<open>Invariants\<close>

text \<open>
  What holds of the timer state in every reachable service: it runs exactly when it has a
  deadline, a long break belongs to a cycle that is a multiple of four, and a short break
  to one that is not. The stored copy of the timer state is an earlier timer state, so
  the same holds of it, and no stored history is longer than 1000 records.
\<close>

definition timerStateOk :: "timer_state \<Rightarrow> bool" where
  "timerStateOk ts =
     ((isRunning ts \<longleftrightarrow> endTime ts \<noteq> None) \<and>
      (currentPhase ts = LongBreak \<longrightarrow> currentCycle ts mod 4 = 0) \<and>
      (currentPhase ts = ShortBreak \<longrightarrow> currentCycle ts mod 4 \<noteq> 0))"

definition historyOk :: "session_record list option \<Rightarrow> bool" where
  "historyOk hs = (case hs of None \<Rightarrow> True | Some xs \<Rightarrow> length xs \<le> 1000)"

definition serviceOk :: "service \<Rightarrow> bool" where
  "serviceOk w =
     (timerStateOk (timerState w) \<and>
      (case storedState w of None \<Rightarrow> True | Some ts \<Rightarrow> timerStateOk ts) \<and>
      historyOk (syncHistory w) \<and> historyOk (localHistory w))"

subsection \<open>Example services\<close>

text \<open>
  A worker that was suspended while a first work phase was running, with its deadline at
  1500000 ms.
\<close>

definition exampleStored :: service where
  "exampleStored = initialService\<lparr>storedState :=
     Some \<lparr>isRunning = True, currentPhase = Work, currentCycle = 1, timeRemaining = 1500,
           endTime = Some 1500000\<rparr>\<rparr>"

text \<open>The settings of the specification's example.\<close>

definition exampleSettings :: timer_settings where
  "exampleSettings = \<lparr>workDuration = 25, shortBreakDuration = 5, longBreakDuration = 15\<rparr>"

text \<open>
  The service after five skips from the first installation: it is in the short break that
  follows the third work phase. And the service after a first start at time 0.
\<close>

definition exampleThirdBreak :: service where
  "exampleThirdBreak =
     run okHost
       [(0, Message SKIP_PHASE), (0, Message SKIP_PHASE), (0, Message SKIP_PHASE),
        (0, Message SKIP_PHASE), (0, Message SKIP_PHASE)]
       initialService"

definition exampleRunning :: service where
  "exampleRunning = step okHost 0 (Message (START_TIMER None)) initialService"

text \<open>
  What one event other than a restart does to phase and cycle: nothing, a reset, or one
  completion.
\<close>

definition phaseCycleStep :: "timer_state \<Rightarrow> timer_state \<Rightarrow> bool" where
  "phaseCycleStep ts ts' =
     ((currentPhase ts' = currentPhase ts \<and> currentCycle ts' = currentCycle ts) \<or>
      (currentPhase ts' = Work \<and> currentCycle ts' = 1) \<or>
      (currentPhase ts \<noteq> Work \<and> currentPhase ts' = Work \<and>
       currentCycle ts' = currentCycle ts + 1) \<or>
      (currentPhase ts = Work \<and> currentPhase ts' \<noteq> Work \<and>
       currentCycle ts' = currentCycle ts))"

text \<open>Records told apart by their \<open>id\<close>, and a host whose sync area rejects every call.\<close>

definition exampleRecord :: "nat \<Rightarrow> session_record" where
  "exampleRecord k =
     \<lparr>rec_id = int k, rec_date = [], rec_startTime = [], rec_duration = 25,
      rec_type = defaultTaskType\<rparr>"

definition syncDownHost :: host where
  "syncDownHost = \<lparr>syncOk = False, localOk = True, isoDate = (\<lambda>t. []), timeString = (\<lambda>t. [])\<rparr>"

subsection \<open>Positive settings\<close>

text \<open>
  The settings are meant to be positive numbers of minutes. An event is positive when the
  settings it carries are, and \<open>reachablePositive\<close> is reachability through positive
  events. Along them the settings stay positive and a running timer has time remaining;
  \<open>runningPositive\<close> says so of the service and of its stored copies.
\<close>

definition positiveSettings :: "timer_settings \<Rightarrow> bool" where
  "positiveSettings s =
     (0 < workDuration s \<and> 0 < shortBreakDuration s \<and> 0 < longBreakDuration s)"

definition positivePatch :: "settings_patch \<Rightarrow> bool" where
  "positivePatch p =
     ((case workDurationP p of None \<Rightarrow> True | Some v \<Rightarrow> 0 < v) \<and>
      (case shortBreakDurationP p of None \<Rightarrow> True | Some v \<Rightarrow> 0 < v) \<and>
      (case longBreakDurationP p of None \<Rightarrow> True | Some v \<Rightarrow> 0 < v))"

fun positiveEvent :: "event \<Rightarrow> bool" where
  "positiveEvent (Message (START_TIMER (Some p))) = positivePatch p"
| "positiveEvent (Message (UPDATE_SETTINGS p)) = positivePatch p"
| "positiveEvent ev = True"

inductive reachablePositive :: "service \<Rightarrow> bool" where
  reachablePositive_initial: "reachablePositive initialService"
| reachablePositive_step:
    "reachablePositive w \<Longrightarrow> positiveEvent ev \<Longrightarrow> reachablePositive (step h now ev w)"

definition runningPositive :: "service \<Rightarrow> bool" where
  "runningPositive w =
     (positiveSettings (settings w) \<and>
      (case storedSettings w of None \<Rightarrow> True | Some s \<Rightarrow> positiveSettings s) \<and>
      (isRunning (timerState w) \<longrightarrow> 0 < timeRemaining (timerState w)) \<and>
      (case storedState w of None \<Rightarrow> True
       | Some ts \<Rightarrow> isRunning ts \<longrightarrow> 0 < timeRemaining ts))"

section \<open>Properties\<close>

subsection \<open>The invariants hold in every reachable service\<close>

lemma length_sliceLast: "length (sliceLast n xs) \<le> n"
  by (simp add: sliceLast_def)

lemma length_limitedHistory: "length (limitedHistory stored r) \<le> 1000"
  by (simp add: limitedHistory_def Let_def length_sliceLast)

lemma serviceOk_initial: "serviceOk initialService"
  by (simp add: serviceOk_def timerStateOk_def historyOk_def initialService_def
      initialTimerState_def)

lemma serviceOk_saveState: "serviceOk w \<Longrightarrow> serviceOk (saveState h w)"
  by (simp add: serviceOk_def saveState_def)

lemma serviceOk_recordCompletedPomodoro:
  "serviceOk w \<Longrightarrow> serviceOk (recordCompletedPomodoro h now w)"
  by (simp add: serviceOk_def recordCompletedPomodoro_def Let_def historyOk_def
      length_limitedHistory)

lemma serviceOk_moveToNextPhase: "serviceOk w \<Longrightarrow> serviceOk (moveToNextPhase w)"
  by (cases "currentPhase (timerState w)")
    (auto simp: serviceOk_def moveToNextPhase_def Let_def timerStateOk_def)

lemma serviceOk_stopped:
  "serviceOk w \<Longrightarrow>
   serviceOk (w\<lparr>timerState := (timerState w)\<lparr>isRunning := False, endTime := None\<rparr>\<rparr>)"
  by (simp add: serviceOk_def timerStateOk_def)

lemma serviceOk_onTimerComplete: "serviceOk w \<Longrightarrow> serviceOk (onTimerComplete h now w)"
  unfolding onTimerComplete_def Let_def
  by (intro serviceOk_saveState serviceOk_moveToNextPhase)
    (simp add: serviceOk_recordCompletedPomodoro serviceOk_stopped)

lemma serviceOk_alarm: "serviceOk (w\<lparr>alarm := a\<rparr>) = serviceOk w"
  by (simp add: serviceOk_def)

lemma serviceOk_timeRemaining:
  "serviceOk (w\<lparr>timerState := (timerState w)\<lparr>timeRemaining := t\<rparr>\<rparr>) = serviceOk w"
  by (simp add: serviceOk_def timerStateOk_def)

lemma serviceOk_settings: "serviceOk (w\<lparr>settings := s\<rparr>) = serviceOk w"
  by (simp add: serviceOk_def)

lemma serviceOk_startTimer: "serviceOk w \<Longrightarrow> serviceOk (startTimer h now w)"
  by (simp add: startTimer_def Let_def saveState_def startAlarm_def clearAlarm_def
      serviceOk_def timerStateOk_def)

lemma serviceOk_pauseTimer: "serviceOk w \<Longrightarrow> serviceOk (pauseTimer h w)"
  by (simp add: pauseTimer_def Let_def saveState_def clearAlarm_def serviceOk_def
      timerStateOk_def)

lemma serviceOk_resetTimer: "serviceOk w \<Longrightarrow> serviceOk (resetTimer h w)"
  by (simp add: resetTimer_def Let_def saveState_def clearAlarm_def serviceOk_def
      timerStateOk_def)

lemma serviceOk_skipPhase: "serviceOk w \<Longrightarrow> serviceOk (skipPhase h now w)"
  by (simp add: skipPhase_def clearAlarm_def serviceOk_onTimerComplete serviceOk_alarm)

lemma serviceOk_updateTimeRemaining:
  "serviceOk w \<Longrightarrow> serviceOk (updateTimeRemaining h now w)"
  by (simp add: updateTimeRemaining_def Let_def serviceOk_onTimerComplete
      serviceOk_timeRemaining split: option.splits)

lemma serviceOk_startup: "serviceOk w \<Longrightarrow> serviceOk (startup h now w)"
proof -
  assume ok: "serviceOk w"
  have "serviceOk (constructor w)"
    using ok by (simp add: constructor_def serviceOk_def timerStateOk_def initialTimerState_def)
  then have "serviceOk (loadState h (constructor w))"
    by (auto simp: loadState_def serviceOk_def split: option.splits)
  then have l: "serviceOk (loadSettings h (loadState h (constructor w)))"
    by (simp add: loadSettings_def serviceOk_settings split: option.splits)
  show ?thesis
    unfolding startup_def init_def restoreTimer_def Let_def
    using l by (simp add: serviceOk_onTimerComplete startAlarm_def clearAlarm_def
        serviceOk_alarm serviceOk_timeRemaining split: option.splits)
qed

lemma serviceOk_handleMessage: "serviceOk w \<Longrightarrow> serviceOk (handleMessage h now m w)"
proof (cases m)
  case (START_TIMER ps)
  then show "serviceOk w \<Longrightarrow> ?thesis"
    by (cases ps) (simp_all add: serviceOk_startTimer serviceOk_settings)
next
  case (UPDATE_SETTINGS p)
  then show "serviceOk w \<Longrightarrow> ?thesis"
    by (simp add: saveSettings_def serviceOk_def)
next
  case CLEAR_HISTORY
  then show "serviceOk w \<Longrightarrow> ?thesis"
    by (simp add: clearHistory_def serviceOk_def historyOk_def)
next
  case (SET_TASK_TYPE t)
  then show "serviceOk w \<Longrightarrow> ?thesis"
    by (simp add: serviceOk_def)
qed (simp_all add: serviceOk_pauseTimer serviceOk_skipPhase serviceOk_resetTimer)

lemma serviceOk_step: "serviceOk w \<Longrightarrow> serviceOk (step h now ev w)"
  by (cases ev)
    (simp_all add: serviceOk_handleMessage serviceOk_updateTimeRemaining serviceOk_startup
      serviceOk_onTimerComplete serviceOk_alarm split: option.splits)

lemma reachable_serviceOk: "reachable w \<Longrightarrow> serviceOk w"
  by (induction rule: reachable.induct) (simp_all add: serviceOk_initial serviceOk_step)

lemma reachable_run: "reachable w \<Longrightarrow> reachable (run h evs w)"
  by (induction h evs w rule: run.induct) (simp_all add: reachable_step)

lemma timerState_saveState: "timerState (saveState h w) = timerState w"
  by (simp add: saveState_def)

lemma timerState_recordCompletedPomodoro:
  "timerState (recordCompletedPomodoro h now w) = timerState w"
  by (simp add: recordCompletedPomodoro_def Let_def)

lemma settings_recordCompletedPomodoro:
  "settings (recordCompletedPomodoro h now w) = settings w"
  by (simp add: recordCompletedPomodoro_def Let_def)

lemma timerState_onTimerComplete:
  "timerState (onTimerComplete h now w) =
     (if currentPhase (timerState w) = Work then
        (if currentCycle (timerState w) mod 4 = 0 then
           (timerState w)\<lparr>isRunning := False, endTime := None, currentPhase := LongBreak,
              timeRemaining := longBreakDuration (settings w) * 60\<rparr>
         else
           (timerState w)\<lparr>isRunning := False, endTime := None, currentPhase := ShortBreak,
              timeRemaining := shortBreakDuration (settings w) * 60\<rparr>)
      else
        (timerState w)\<lparr>isRunning := False, endTime := None, currentPhase := Work,
           timeRemaining := workDuration (settings w) * 60,
           currentCycle := currentCycle (timerState w) + 1\<rparr>)"
  by (simp add: onTimerComplete_def Let_def timerState_saveState moveToNextPhase_def
      timerState_recordCompletedPomodoro settings_recordCompletedPomodoro)

lemma settings_onTimerComplete: "settings (onTimerComplete h now w) = settings w"
  by (simp add: onTimerComplete_def Let_def saveState_def moveToNextPhase_def
      settings_recordCompletedPomodoro)

subsection \<open>Recovery at startup\<close>

text \<open>
  Claim C1. When the worker starts and the stored timer state is running with a deadline
  \<open>e\<close> (a number that passes the source's test, so not \<open>0\<close>), the time left is
  \<open>max 0 ((e - now) div 1000)\<close>. If it is positive, it becomes \<open>timeRemaining\<close>, nothing
  else of the stored timer state changes, and the alarm is armed for that many seconds.
  If it is zero, the start is one call of \<open>onTimerComplete\<close> on the loaded service, and
  the timer is not running afterwards.
\<close>

theorem startup_recovery:
  assumes "localOk h" and "storedState w = Some ts" and "isRunning ts"
    and "endTime ts = Some e" and "e \<noteq> 0"
  shows "(0 < max 0 ((e - now) div 1000) \<longrightarrow>
            timerState (startup h now w) = ts\<lparr>timeRemaining := max 0 ((e - now) div 1000)\<rparr> \<and>
            alarm (startup h now w) = Some (max 0 ((e - now) div 1000))) \<and>
         (max 0 ((e - now) div 1000) = 0 \<longrightarrow>
            startup h now w =
              onTimerComplete h now (loadSettings h (loadState h (constructor w))) \<and>
            \<not> isRunning (timerState (startup h now w)))"
proof -
  let ?l = "loadSettings h (loadState h (constructor w))"
  have ts: "timerState ?l = ts"
    using assms(1,2) by (simp add: loadSettings_def loadState_def constructor_def split: option.splits)
  have run: "isRunning (timerState ?l) \<and> truthyTime (endTime (timerState ?l))"
    using assms(3,4,5) by (simp add: ts truthyTime_def)
  have e: "endTime (timerState ?l) = Some e"
    using assms(4) by (simp add: ts)
  show ?thesis
  proof (cases "0 < max 0 ((e - now) div 1000)")
    case True
    then have "startup h now w =
        startAlarm (timeLeftAt e now) (?l\<lparr>timerState := (timerState ?l)\<lparr>timeRemaining := timeLeftAt e now\<rparr>\<rparr>)"
      using run e by (simp add: startup_def init_def restoreTimer_def Let_def timeLeftAt_def)
    then show ?thesis
      using True by (auto simp: startAlarm_def clearAlarm_def ts timeLeftAt_def)
  next
    case False
    then have "startup h now w = onTimerComplete h now ?l"
      using run e by (simp add: startup_def init_def restoreTimer_def Let_def timeLeftAt_def)
    then show ?thesis
      using False by (auto simp: timerState_onTimerComplete)
  qed
qed

theorem startup_recovery_witness:
  "max 0 ((1500000 - 1590000) div 1000) = (0::int) \<and>
   startup okHost 1590000 exampleStored =
     onTimerComplete okHost 1590000 (loadSettings okHost (loadState okHost (constructor exampleStored))) \<and>
   \<not> isRunning (timerState (startup okHost 1590000 exampleStored)) \<and>
   currentPhase (timerState (startup okHost 1590000 exampleStored)) = ShortBreak \<and>
   (0::int) < max 0 ((1500000 - 600000) div 1000) \<and>
   timeRemaining (timerState (startup okHost 600000 exampleStored)) = 900 \<and>
   alarm (startup okHost 600000 exampleStored) = Some 900"
proof -
  let ?ts = "\<lparr>isRunning = True, currentPhase = Work, currentCycle = 1, timeRemaining = 1500,
           endTime = Some (1500000::int)\<rparr>"
  have a: "localOk okHost" by (simp add: okHost_def)
  have b: "storedState exampleStored = Some ?ts" by (simp add: exampleStored_def)
  have c: "isRunning ?ts" by simp
  have d: "endTime ?ts = Some 1500000" by simp
  have e: "(1500000::int) \<noteq> 0" by simp
  note late = startup_recovery [OF a b c d e, of 1590000]
  note early = startup_recovery [OF a b c d e, of 600000]
  have ph: "currentPhase (timerState (onTimerComplete okHost 1590000
      (loadSettings okHost (loadState okHost (constructor exampleStored))))) = ShortBreak"
    by (simp add: timerState_onTimerComplete loadSettings_def loadState_def constructor_def
        exampleStored_def okHost_def initialService_def)
  show ?thesis using late early ph by auto
qed

subsection \<open>The phase transition\<close>

text \<open>
  Claim C2. \<open>onTimerComplete\<close> moves a work phase whose cycle is a multiple of four to the
  long break, any other work phase to the short break, and either break to work with the
  cycle one higher; \<open>timeRemaining\<close> becomes the new phase's duration from the settings
  (minutes, times 60). With the settings 25, 5 and 15, seven completions from work in
  cycle 1 go through short break, work 2, short break, work 3, short break, work 4 and
  the long break.
\<close>

theorem onTimerComplete_transition:
  "(currentPhase (timerState w) = Work \<and> currentCycle (timerState w) mod 4 = 0 \<longrightarrow>
      currentPhase (timerState (onTimerComplete h now w)) = LongBreak \<and>
      timeRemaining (timerState (onTimerComplete h now w)) = longBreakDuration (settings w) * 60 \<and>
      currentCycle (timerState (onTimerComplete h now w)) = currentCycle (timerState w)) \<and>
   (currentPhase (timerState w) = Work \<and> currentCycle (timerState w) mod 4 \<noteq> 0 \<longrightarrow>
      currentPhase (timerState (onTimerComplete h now w)) = ShortBreak \<and>
      timeRemaining (timerState (onTimerComplete h now w)) = shortBreakDuration (settings w) * 60 \<and>
      currentCycle (timerState (onTimerComplete h now w)) = currentCycle (timerState w)) \<and>
   (currentPhase (timerState w) \<noteq> Work \<longrightarrow>
      currentPhase (timerState (onTimerComplete h now w)) = Work \<and>
      timeRemaining (timerState (onTimerComplete h now w)) = workDuration (settings w) * 60 \<and>
      currentCycle (timerState (onTimerComplete h now w)) = currentCycle (timerState w) + 1) \<and>
   (settings w = exampleSettings \<and> currentPhase (timerState w) = Work \<and>
    currentCycle (timerState w) = 1 \<longrightarrow>
      map (\<lambda>k. let ts = timerState ((onTimerComplete h now ^^ k) w)
                in (currentPhase ts, currentCycle ts, timeRemaining ts)) [1, 2, 3, 4, 5, 6, 7] =
        [(ShortBreak, 1, 300), (Work, 2, 1500), (ShortBreak, 2, 300), (Work, 3, 1500),
         (ShortBreak, 3, 300), (Work, 4, 1500), (LongBreak, 4, 900)])"
proof (intro conjI impI)
  assume a: "settings w = exampleSettings \<and> currentPhase (timerState w) = Work \<and>
    currentCycle (timerState w) = 1"
  define st where "st k = timerState ((onTimerComplete h now ^^ k) w)" for k
  define tr where "tr k = (currentPhase (st k), currentCycle (st k), timeRemaining (st k))" for k
  have set: "settings ((onTimerComplete h now ^^ k) w) = exampleSettings" for k
    using a by (induction k) (simp_all add: settings_onTimerComplete)
  have next_tr: "tr (Suc k) =
      (if currentPhase (st k) = Work then
         (if currentCycle (st k) mod 4 = 0 then (LongBreak, currentCycle (st k), 900)
          else (ShortBreak, currentCycle (st k), 300))
       else (Work, currentCycle (st k) + 1, 1500))" for k
    by (simp add: tr_def st_def timerState_onTimerComplete set exampleSettings_def)
  have t0: "tr 0 = (Work, 1, timeRemaining (timerState w))"
    using a by (simp add: tr_def st_def)
  have t1: "tr 1 = (ShortBreak, 1, 300)"
    using t0 next_tr [of 0] by (simp add: tr_def)
  have t2: "tr 2 = (Work, 2, 1500)"
    using t1 next_tr [of 1] by (simp add: tr_def numeral_2_eq_2)
  have t3: "tr 3 = (ShortBreak, 2, 300)"
    using t2 next_tr [of 2] by (simp add: tr_def numeral_3_eq_3 numeral_2_eq_2)
  have t4: "tr 4 = (Work, 3, 1500)"
    using t3 next_tr [of 3] by (simp add: tr_def eval_nat_numeral)
  have t5: "tr 5 = (ShortBreak, 3, 300)"
    using t4 next_tr [of 4] by (simp add: tr_def eval_nat_numeral)
  have t6: "tr 6 = (Work, 4, 1500)"
    using t5 next_tr [of 5] by (simp add: tr_def eval_nat_numeral)
  have t7: "tr 7 = (LongBreak, 4, 900)"
    using t6 next_tr [of 6] by (simp add: tr_def eval_nat_numeral)
  have tr_eq: "tr = (\<lambda>k. let ts = timerState ((onTimerComplete h now ^^ k) w)
                in (currentPhase ts, currentCycle ts, timeRemaining ts))"
    by (simp add: fun_eq_iff tr_def st_def Let_def)
  have "map tr [1, 2, 3, 4, 5, 6, 7] =
      [(ShortBreak, 1, 300), (Work, 2, 1500), (ShortBreak, 2, 300), (Work, 3, 1500),
       (ShortBreak, 3, 300), (Work, 4, 1500), (LongBreak, 4, 900)]"
    by (simp only: list.map t1 t2 t3 t4 t5 t6 t7)
  then show "map (\<lambda>k. let ts = timerState ((onTimerComplete h now ^^ k) w)
                in (currentPhase ts, currentCycle ts, timeRemaining ts)) [1, 2, 3, 4, 5, 6, 7] =
        [(ShortBreak, 1, 300), (Work, 2, 1500), (ShortBreak, 2, 300), (Work, 3, 1500),
         (ShortBreak, 3, 300), (Work, 4, 1500), (LongBreak, 4, 900)]"
    unfolding tr_eq .
qed (simp_all add: timerState_onTimerComplete)

theorem onTimerComplete_transition_witness:
  "settings initialService = exampleSettings \<and>
   currentPhase (timerState initialService) = Work \<and>
   currentCycle (timerState initialService) = 1 \<and>
   currentCycle (timerState initialService) mod 4 \<noteq> 0 \<and>
   currentPhase (timerState (onTimerComplete okHost 0 initialService)) = ShortBreak \<and>
   timeRemaining (timerState (onTimerComplete okHost 0 initialService)) = 300 \<and>
   map (\<lambda>k. let ts = timerState ((onTimerComplete okHost 0 ^^ k) initialService)
             in (currentPhase ts, currentCycle ts, timeRemaining ts)) [1, 2, 3, 4, 5, 6, 7] =
     [(ShortBreak, 1, 300), (Work, 2, 1500), (ShortBreak, 2, 300), (Work, 3, 1500),
      (ShortBreak, 3, 300), (Work, 4, 1500), (LongBreak, 4, 900)]"
proof -
  have a: "settings initialService = exampleSettings"
    by (simp add: initialService_def exampleSettings_def defaultSettings_def)
  have b: "currentPhase (timerState initialService) = Work"
    by (simp add: initialService_def initialTimerState_def)
  have c: "currentCycle (timerState initialService) = 1"
    by (simp add: initialService_def initialTimerState_def)
  have d: "shortBreakDuration (settings initialService) = 5"
    by (simp add: initialService_def defaultSettings_def)
  show ?thesis
    using onTimerComplete_transition [of initialService okHost 0] a b c d by simp
qed

subsection \<open>Phase and cycle along one event\<close>

lemma phase_cycle_startTimer:
  "currentPhase (timerState (startTimer h now w)) = currentPhase (timerState w) \<and>
   currentCycle (timerState (startTimer h now w)) = currentCycle (timerState w)"
  by (simp add: startTimer_def Let_def saveState_def startAlarm_def clearAlarm_def)

lemma timerState_skipPhase:
  "timerState (skipPhase h now w) = timerState (onTimerComplete h now w)"
  by (simp add: skipPhase_def clearAlarm_def timerState_onTimerComplete)

lemma timerState_pauseTimer:
  "timerState (pauseTimer h w) = (timerState w)\<lparr>isRunning := False, endTime := None\<rparr>"
  by (simp add: pauseTimer_def Let_def saveState_def clearAlarm_def)

lemma timerState_resetTimer:
  "timerState (resetTimer h w) =
     \<lparr>isRunning = False, currentPhase = Work, currentCycle = 1,
      timeRemaining = workDuration (settings w) * 60, endTime = None\<rparr>"
  by (simp add: resetTimer_def Let_def saveState_def clearAlarm_def)

lemma phaseCycleStep_onTimerComplete:
  "phaseCycleStep (timerState w) (timerState (onTimerComplete h now w))"
  by (simp add: phaseCycleStep_def timerState_onTimerComplete)

lemma phaseCycleStep_updateTimeRemaining:
  "phaseCycleStep (timerState w) (timerState (updateTimeRemaining h now w))"
  by (simp add: phaseCycleStep_def updateTimeRemaining_def Let_def timerState_onTimerComplete
      split: option.splits)

lemma phaseCycleStep_handleMessage:
  "phaseCycleStep (timerState w) (timerState (handleMessage h now m w))"
proof (cases m)
  case (START_TIMER ps)
  then show ?thesis
    by (cases ps) (simp_all add: phaseCycleStep_def phase_cycle_startTimer)
next
  case SKIP_PHASE
  then show ?thesis
    by (simp add: timerState_skipPhase phaseCycleStep_onTimerComplete)
qed (simp_all add: phaseCycleStep_def timerState_pauseTimer timerState_resetTimer
    saveSettings_def clearHistory_def)

lemma phaseCycleStep_step:
  "ev \<noteq> Restart \<Longrightarrow> phaseCycleStep (timerState w) (timerState (step h now ev w))"
proof (cases ev)
  case (Message m)
  then show ?thesis by (simp add: phaseCycleStep_handleMessage)
next
  case AlarmFired
  have "phaseCycleStep (timerState w) (timerState (onTimerComplete h now (w\<lparr>alarm := None\<rparr>)))"
    using phaseCycleStep_onTimerComplete [of "w\<lparr>alarm := None\<rparr>" h now] by simp
  with AlarmFired show ?thesis
    by (cases "alarm w") (simp_all add: phaseCycleStep_def)
next
  case Tick
  then show ?thesis by (simp add: phaseCycleStep_updateTimeRemaining)
next
  case Restart
  assume "ev \<noteq> Restart"
  with Restart show ?thesis by simp
qed

subsection \<open>The cycle on entering work\<close>

text \<open>
  The claim C4 as it is written fails: the service reached by five skips is in the short
  break after the third work phase, and one more completion enters work with cycle 4,
  a multiple of four, though the break that was completed is a short one.
\<close>

theorem work_entry_after_long_break_counterexample:
  "reachable exampleThirdBreak \<and>
   currentPhase (timerState exampleThirdBreak) = ShortBreak \<and>
   currentPhase (timerState (step okHost 0 (Message SKIP_PHASE) exampleThirdBreak)) = Work \<and>
   currentCycle (timerState (step okHost 0 (Message SKIP_PHASE) exampleThirdBreak)) mod 4 = 0 \<and>
   currentPhase (timerState exampleThirdBreak) \<noteq> LongBreak"
proof -
  have r: "reachable exampleThirdBreak"
    unfolding exampleThirdBreak_def by (rule reachable_run) (rule reachable_initial)
  have ts: "timerState exampleThirdBreak =
      \<lparr>isRunning = False, currentPhase = ShortBreak, currentCycle = 3, timeRemaining = 300,
       endTime = None\<rparr>"
    by (simp add: exampleThirdBreak_def timerState_skipPhase timerState_onTimerComplete
        skipPhase_def settings_onTimerComplete clearAlarm_def initialService_def
        initialTimerState_def defaultSettings_def)
  show ?thesis
    using r by (simp add: ts timerState_skipPhase timerState_onTimerComplete)
qed

text \<open>
  Claim C4, amended. In a reachable service, when an event other than a restart of the
  worker leaves a break and enters work: if the cycle is then a multiple of four, the
  break that was left is a short break; and if the break that was left is a long break,
  the cycle is then 1 modulo 4.
\<close>

theorem work_entry_cycle:
  assumes "reachable w" and "ev \<noteq> Restart"
    and "currentPhase (timerState w) \<noteq> Work"
    and "currentPhase (timerState (step h now ev w)) = Work"
  shows "(currentCycle (timerState (step h now ev w)) mod 4 = 0 \<longrightarrow>
            currentPhase (timerState w) = ShortBreak) \<and>
         (currentPhase (timerState w) = LongBreak \<longrightarrow>
            currentCycle (timerState (step h now ev w)) mod 4 = 1)"
proof -
  have ok: "timerStateOk (timerState w)"
    using reachable_serviceOk [OF assms(1)] by (simp add: serviceOk_def)
  have "phaseCycleStep (timerState w) (timerState (step h now ev w))"
    using assms(2) by (rule phaseCycleStep_step)
  then have c: "currentCycle (timerState (step h now ev w)) = 1 \<or>
      currentCycle (timerState (step h now ev w)) = currentCycle (timerState w) + 1"
    using assms(3,4) by (auto simp: phaseCycleStep_def)
  show ?thesis
  proof (cases "currentPhase (timerState w)")
    case Work
    with assms(3) show ?thesis by simp
  next
    case ShortBreak
    then show ?thesis by simp
  next
    case LongBreak
    have arith: "b mod 4 = 1" if "a mod 4 = 0" and "b = 1 \<or> b = a + 1" for a b :: int
      using that by presburger
    from ok LongBreak have z: "currentCycle (timerState w) mod 4 = 0"
      by (simp add: timerStateOk_def)
    have "currentCycle (timerState (step h now ev w)) mod 4 = 1"
      by (rule arith [OF z c])
    with LongBreak show ?thesis by simp
  qed
qed

theorem work_entry_cycle_witness:
  "reachable exampleThirdBreak \<and> Message SKIP_PHASE \<noteq> Restart \<and>
   currentPhase (timerState exampleThirdBreak) \<noteq> Work \<and>
   currentPhase (timerState (step okHost 0 (Message SKIP_PHASE) exampleThirdBreak)) = Work \<and>
   currentCycle (timerState (step okHost 0 (Message SKIP_PHASE) exampleThirdBreak)) mod 4 = 0 \<and>
   currentPhase (timerState exampleThirdBreak) = ShortBreak"
proof -
  have r: "reachable exampleThirdBreak"
    unfolding exampleThirdBreak_def by (rule reachable_run) (rule reachable_initial)
  have ts: "timerState exampleThirdBreak =
      \<lparr>isRunning = False, currentPhase = ShortBreak, currentCycle = 3, timeRemaining = 300,
       endTime = None\<rparr>"
    by (simp add: exampleThirdBreak_def timerState_skipPhase timerState_onTimerComplete
        skipPhase_def settings_onTimerComplete clearAlarm_def initialService_def
        initialTimerState_def defaultSettings_def)
  have e: "Message SKIP_PHASE \<noteq> Restart" by simp
  have p: "currentPhase (timerState exampleThirdBreak) \<noteq> Work" by (simp add: ts)
  have q: "currentPhase (timerState (step okHost 0 (Message SKIP_PHASE) exampleThirdBreak)) = Work"
    by (simp add: ts timerState_skipPhase timerState_onTimerComplete)
  have m: "currentCycle (timerState (step okHost 0 (Message SKIP_PHASE) exampleThirdBreak)) mod 4 = 0"
    by (simp add: ts timerState_skipPhase timerState_onTimerComplete)
  show ?thesis
    using work_entry_cycle [OF r e p q] r e p q m by blast
qed

subsection \<open>Running and the deadline\<close>

text \<open>
  Claim C5. In every reachable service the timer is running if and only if \<open>endTime\<close> is
  not \<open>null\<close>. Each of \<open>startTimer\<close>, \<open>pauseTimer\<close>, \<open>skipPhase\<close>, \<open>resetTimer\<close> and
  \<open>onTimerComplete\<close> sets both fields together, so the equivalence holds after each of
  them, from any service.
\<close>

theorem running_iff_endTime:
  "(reachable w \<longrightarrow> (isRunning (timerState w) \<longleftrightarrow> endTime (timerState w) \<noteq> None)) \<and>
   (isRunning (timerState (startTimer h now w)) \<longleftrightarrow>
      endTime (timerState (startTimer h now w)) \<noteq> None) \<and>
   (isRunning (timerState (pauseTimer h w)) \<longleftrightarrow>
      endTime (timerState (pauseTimer h w)) \<noteq> None) \<and>
   (isRunning (timerState (skipPhase h now w)) \<longleftrightarrow>
      endTime (timerState (skipPhase h now w)) \<noteq> None) \<and>
   (isRunning (timerState (resetTimer h w)) \<longleftrightarrow>
      endTime (timerState (resetTimer h w)) \<noteq> None) \<and>
   (isRunning (timerState (onTimerComplete h now w)) \<longleftrightarrow>
      endTime (timerState (onTimerComplete h now w)) \<noteq> None)"
proof -
  have "isRunning (timerState w) \<longleftrightarrow> endTime (timerState w) \<noteq> None" if "reachable w"
    using reachable_serviceOk [OF that] by (simp add: serviceOk_def timerStateOk_def)
  moreover have "isRunning (timerState (startTimer h now w)) \<longleftrightarrow>
      endTime (timerState (startTimer h now w)) \<noteq> None"
    by (simp add: startTimer_def Let_def saveState_def startAlarm_def clearAlarm_def)
  ultimately show ?thesis
    by (simp add: timerState_pauseTimer timerState_skipPhase timerState_resetTimer
        timerState_onTimerComplete)
qed

theorem running_iff_endTime_witness:
  "reachable exampleRunning \<and> isRunning (timerState exampleRunning) \<and>
   endTime (timerState exampleRunning) = Some 1500000"
proof -
  have r: "reachable exampleRunning"
    unfolding exampleRunning_def by (rule reachable_step) (rule reachable_initial)
  have "isRunning (timerState exampleRunning)"
    by (simp add: exampleRunning_def startTimer_def Let_def saveState_def startAlarm_def
        clearAlarm_def)
  moreover have "endTime (timerState exampleRunning) \<noteq> None \<longrightarrow>
      endTime (timerState exampleRunning) = Some 1500000"
    by (simp add: exampleRunning_def startTimer_def Let_def saveState_def startAlarm_def
        clearAlarm_def initialService_def initialTimerState_def)
  ultimately show ?thesis
    using running_iff_endTime [of exampleRunning okHost 0] r by blast
qed

subsection \<open>The bound on the history\<close>

text \<open>
  Claim C7. What \<open>recordCompletedPomodoro\<close> writes back is the stored history with the
  new record pushed, cut to its last 1000 entries: never more than 1000 records; when
  1000 are stored, the oldest goes and the new record is the last; when fewer are
  stored, all stay. It is written to the sync area, or to the local area when the sync
  area rejects the call. So no history of a reachable service exceeds 1000 records.
\<close>

theorem history_bounded:
  "length (limitedHistory stored r) \<le> 1000 \<and>
   limitedHistory stored r =
     sliceLast 1000 ((case stored of None \<Rightarrow> [] | Some xs \<Rightarrow> xs) @ [r]) \<and>
   (\<forall>xs. stored = Some xs \<and> length xs = 1000 \<longrightarrow> limitedHistory stored r = tl xs @ [r]) \<and>
   (\<forall>xs. stored = Some xs \<and> length xs < 1000 \<longrightarrow> limitedHistory stored r = xs @ [r]) \<and>
   (syncOk h \<longrightarrow>
      syncHistory (recordCompletedPomodoro h now w) =
        Some (limitedHistory (syncHistory w) (newRecord h now w))) \<and>
   (\<not> syncOk h \<and> localOk h \<longrightarrow>
      localHistory (recordCompletedPomodoro h now w) =
        Some (limitedHistory (localHistory w) (newRecord h now w))) \<and>
   (reachable w \<longrightarrow> historyOk (syncHistory w) \<and> historyOk (localHistory w))"
proof -
  have a: "limitedHistory (Some xs) r = tl xs @ [r]" if "length xs = 1000" for xs
  proof -
    from that have "xs \<noteq> []" by auto
    then show ?thesis
      using that by (simp add: limitedHistory_def sliceLast_def drop_Suc)
  qed
  have b: "limitedHistory (Some xs) r = xs @ [r]" if "length xs < 1000" for xs
    using that by (simp add: limitedHistory_def sliceLast_def)
  have c: "historyOk (syncHistory w) \<and> historyOk (localHistory w)" if "reachable w"
    using reachable_serviceOk [OF that] by (simp add: serviceOk_def)
  have d: "limitedHistory stored r =
     sliceLast 1000 ((case stored of None \<Rightarrow> [] | Some xs \<Rightarrow> xs) @ [r])"
    by (simp add: limitedHistory_def)
  have e: "syncOk h \<longrightarrow>
      syncHistory (recordCompletedPomodoro h now w) =
        Some (limitedHistory (syncHistory w) (newRecord h now w))"
    by (simp add: recordCompletedPomodoro_def Let_def)
  have f: "\<not> syncOk h \<and> localOk h \<longrightarrow>
      localHistory (recordCompletedPomodoro h now w) =
        Some (limitedHistory (localHistory w) (newRecord h now w))"
    by (simp add: recordCompletedPomodoro_def Let_def)
  show ?thesis
    using a b c d e f length_limitedHistory [of stored r] by blast
qed


theorem history_bounded_witness:
  "length (map exampleRecord [0..<1000]) = 1000 \<and>
   limitedHistory (Some (map exampleRecord [0..<1000])) (exampleRecord 1000) =
     map exampleRecord [1..<1001] \<and>
   length (map exampleRecord [0..<999]) < 1000 \<and>
   limitedHistory (Some (map exampleRecord [0..<999])) (exampleRecord 1000) =
     map exampleRecord [0..<999] @ [exampleRecord 1000] \<and>
   syncOk okHost \<and>
   syncHistory (recordCompletedPomodoro okHost 0 initialService) =
     Some [newRecord okHost 0 initialService] \<and>
   \<not> syncOk syncDownHost \<and> localOk syncDownHost \<and>
   localHistory (recordCompletedPomodoro syncDownHost 0 initialService) =
     Some [newRecord syncDownHost 0 initialService] \<and>
   reachable initialService \<and> historyOk (syncHistory initialService)"
proof -
  let ?full = "map exampleRecord [0..<1000]"
  let ?short = "map exampleRecord [0..<999]"
  have len: "length ?full = 1000" by simp
  have "limitedHistory (Some ?full) (exampleRecord 1000) = tl ?full @ [exampleRecord 1000]"
    using history_bounded [of "Some ?full" "exampleRecord 1000" okHost 0 initialService] len
    by blast
  moreover have "tl ?full = map exampleRecord [1..<1000]"
    by (simp add: map_tl [symmetric] tl_upt del: upt_Suc)
  moreover have "[1..<1001] = [1..<1000] @ [1000::nat]"
    using upt_Suc_append [of 1 1000] by simp
  ultimately have full: "limitedHistory (Some ?full) (exampleRecord 1000) =
      map exampleRecord [1..<1001]"
    by simp
  have lens: "length ?short < 1000" by simp
  have short: "limitedHistory (Some ?short) (exampleRecord 1000) = ?short @ [exampleRecord 1000]"
    using history_bounded [of "Some ?short" "exampleRecord 1000" okHost 0 initialService] lens
    by blast
  have ok: "syncOk okHost" by (simp add: okHost_def)
  have nil: "limitedHistory None r = [r]" for r
    by (simp add: limitedHistory_def sliceLast_def)
  have s0: "syncHistory initialService = None" "localHistory initialService = None"
    by (simp_all add: initialService_def)
  have sync: "syncHistory (recordCompletedPomodoro okHost 0 initialService) =
      Some [newRecord okHost 0 initialService]"
    using history_bounded [of None "exampleRecord 0" okHost 0 initialService] ok
    by (simp add: s0 nil)
  have down: "\<not> syncOk syncDownHost \<and> localOk syncDownHost" by (simp add: syncDownHost_def)
  have loc: "localHistory (recordCompletedPomodoro syncDownHost 0 initialService) =
      Some [newRecord syncDownHost 0 initialService]"
    using history_bounded [of None "exampleRecord 0" syncDownHost 0 initialService] down
    by (simp add: s0 nil)
  have r: "reachable initialService" by (rule reachable_initial)
  have h: "historyOk (syncHistory initialService)"
    using history_bounded [of None "exampleRecord 0" okHost 0 initialService] r by blast
  show ?thesis
    using len full lens short ok sync down loc r h by blast
qed

subsection \<open>The example of a running service\<close>

lemma exampleRunning_eq:
  "exampleRunning =
     \<lparr>timerState = \<lparr>isRunning = True, currentPhase = Work, currentCycle = 1,
                    timeRemaining = 1500, endTime = Some 1500000\<rparr>,
      settings = defaultSettings, currentTaskType = defaultTaskType,
      sessionStartTime = Some 0, alarm = Some 1500,
      storedState = Some \<lparr>isRunning = True, currentPhase = Work, currentCycle = 1,
                    timeRemaining = 1500, endTime = Some 1500000\<rparr>,
      storedSettings = None, syncHistory = None, localHistory = None\<rparr>"
  by (simp add: exampleRunning_def startTimer_def Let_def saveState_def startAlarm_def
      clearAlarm_def initialService_def initialTimerState_def okHost_def)

subsection \<open>The session record\<close>

text \<open>
  Claim C8. \<open>onTimerComplete\<close> leaves both histories as they are when the phase it
  completes is not work. When it is work, the new record is pushed onto the history of
  the sync area, or of the local area when the sync area rejects the call, and is its
  last entry. The record's \<open>startTime\<close> is the formatted session-start marker, or
  \<open>now\<close> minus the work duration when there is no marker; its \<open>duration\<close> is the work
  duration of the settings and its \<open>type\<close> the current task type.
\<close>

theorem onTimerComplete_history:
  "(currentPhase (timerState w) \<noteq> Work \<longrightarrow>
      syncHistory (onTimerComplete h now w) = syncHistory w \<and>
      localHistory (onTimerComplete h now w) = localHistory w) \<and>
   (currentPhase (timerState w) = Work \<and> syncOk h \<longrightarrow>
      syncHistory (onTimerComplete h now w) =
        Some (sliceLast 1000
               ((case syncHistory w of None \<Rightarrow> [] | Some xs \<Rightarrow> xs) @ [newRecord h now w])) \<and>
      localHistory (onTimerComplete h now w) = localHistory w) \<and>
   (currentPhase (timerState w) = Work \<and> \<not> syncOk h \<and> localOk h \<longrightarrow>
      localHistory (onTimerComplete h now w) =
        Some (sliceLast 1000
               ((case localHistory w of None \<Rightarrow> [] | Some xs \<Rightarrow> xs) @ [newRecord h now w])) \<and>
      syncHistory (onTimerComplete h now w) = syncHistory w) \<and>
   last (sliceLast 1000 (xs @ [newRecord h now w])) = newRecord h now w \<and>
   newRecord h now w =
     \<lparr>rec_id = now,
      rec_date = isoDate h now,
      rec_startTime =
        timeString h
          (case sessionStartTime w of
             None \<Rightarrow> now - workDuration (settings w) * 60 * 1000
           | Some t \<Rightarrow> t),
      rec_duration = workDuration (settings w),
      rec_type = (if currentTaskType w = [] then defaultTaskType else currentTaskType w)\<rparr>"
proof -
  let ?w1 = "w\<lparr>timerState := (timerState w)\<lparr>isRunning := False, endTime := None\<rparr>\<rparr>"
  have r: "newRecord h now ?w1 = newRecord h now w"
    by (simp add: newRecord_def sessionStart_def split: option.splits)
  have hist: "syncHistory (saveState h (moveToNextPhase v)) = syncHistory v \<and>
      localHistory (saveState h (moveToNextPhase v)) = localHistory v" for v
    by (simp add: saveState_def moveToNextPhase_def Let_def)
  have a: "currentPhase (timerState w) \<noteq> Work \<longrightarrow>
      syncHistory (onTimerComplete h now w) = syncHistory w \<and>
      localHistory (onTimerComplete h now w) = localHistory w"
    by (simp add: onTimerComplete_def Let_def hist)
  have b: "currentPhase (timerState w) = Work \<and> syncOk h \<longrightarrow>
      syncHistory (onTimerComplete h now w) =
        Some (sliceLast 1000
               ((case syncHistory w of None \<Rightarrow> [] | Some xs \<Rightarrow> xs) @ [newRecord h now w])) \<and>
      localHistory (onTimerComplete h now w) = localHistory w"
    by (simp add: onTimerComplete_def Let_def hist recordCompletedPomodoro_def r
        limitedHistory_def)
  have c: "currentPhase (timerState w) = Work \<and> \<not> syncOk h \<and> localOk h \<longrightarrow>
      localHistory (onTimerComplete h now w) =
        Some (sliceLast 1000
               ((case localHistory w of None \<Rightarrow> [] | Some xs \<Rightarrow> xs) @ [newRecord h now w])) \<and>
      syncHistory (onTimerComplete h now w) = syncHistory w"
    by (simp add: onTimerComplete_def Let_def hist recordCompletedPomodoro_def r
        limitedHistory_def)
  have d: "last (sliceLast 1000 (xs @ [newRecord h now w])) = newRecord h now w"
    by (simp add: sliceLast_def)
  have e: "newRecord h now w =
     \<lparr>rec_id = now,
      rec_date = isoDate h now,
      rec_startTime =
        timeString h
          (case sessionStartTime w of
             None \<Rightarrow> now - workDuration (settings w) * 60 * 1000
           | Some t \<Rightarrow> t),
      rec_duration = workDuration (settings w),
      rec_type = (if currentTaskType w = [] then defaultTaskType else currentTaskType w)\<rparr>"
    by (simp add: newRecord_def sessionStart_def)
  show ?thesis
    using a b c d e by blast
qed

theorem onTimerComplete_history_witness:
  "currentPhase (timerState exampleRunning) = Work \<and> syncOk okHost \<and>
   sessionStartTime exampleRunning = Some 0 \<and>
   syncHistory (onTimerComplete okHost 1500000 exampleRunning) =
     Some [\<lparr>rec_id = 1500000, rec_date = isoDate okHost 1500000,
            rec_startTime = timeString okHost 0, rec_duration = 25,
            rec_type = defaultTaskType\<rparr>] \<and>
   \<not> syncOk syncDownHost \<and> localOk syncDownHost \<and>
   localHistory (onTimerComplete syncDownHost 1500000 exampleRunning) =
     Some [\<lparr>rec_id = 1500000, rec_date = isoDate syncDownHost 1500000,
            rec_startTime = timeString syncDownHost 0, rec_duration = 25,
            rec_type = defaultTaskType\<rparr>] \<and>
   currentPhase (timerState initialService) = Work \<and>
   sessionStartTime initialService = None \<and>
   syncHistory (onTimerComplete okHost 2000000 initialService) =
     Some [\<lparr>rec_id = 2000000, rec_date = isoDate okHost 2000000,
            rec_startTime = timeString okHost 500000, rec_duration = 25,
            rec_type = defaultTaskType\<rparr>] \<and>
   currentPhase (timerState (onTimerComplete okHost 1500000 exampleRunning)) \<noteq> Work \<and>
   syncHistory (onTimerComplete okHost 1800000 (onTimerComplete okHost 1500000 exampleRunning)) =
     syncHistory (onTimerComplete okHost 1500000 exampleRunning)"
proof -
  have p: "currentPhase (timerState exampleRunning) = Work"
    "sessionStartTime exampleRunning = Some 0" "syncHistory exampleRunning = None"
    "localHistory exampleRunning = None" "settings exampleRunning = defaultSettings"
    "currentTaskType exampleRunning = defaultTaskType"
    by (simp_all add: exampleRunning_eq)
  have q: "currentPhase (timerState initialService) = Work"
    "sessionStartTime initialService = None" "syncHistory initialService = None"
    "settings initialService = defaultSettings"
    "currentTaskType initialService = defaultTaskType"
    by (simp_all add: initialService_def initialTimerState_def)
  have ok: "syncOk okHost" by (simp add: okHost_def)
  have down: "\<not> syncOk syncDownHost" "localOk syncDownHost" by (simp_all add: syncDownHost_def)
  have dt: "defaultTaskType \<noteq> []" by (simp add: defaultTaskType_def)
  have wd: "workDuration defaultSettings = 25" by (simp add: defaultSettings_def)
  have one: "sliceLast 1000 [r] = [r]" for r :: session_record
    by (simp add: sliceLast_def)
  note t1 = onTimerComplete_history [of exampleRunning okHost 1500000 "[]"]
  note t2 = onTimerComplete_history [of exampleRunning syncDownHost 1500000 "[]"]
  note t3 = onTimerComplete_history [of initialService okHost 2000000 "[]"]
  note t4 = onTimerComplete_history
    [of "onTimerComplete okHost 1500000 exampleRunning" okHost 1800000 "[]"]
  have a: "syncHistory (onTimerComplete okHost 1500000 exampleRunning) =
     Some [\<lparr>rec_id = 1500000, rec_date = isoDate okHost 1500000,
            rec_startTime = timeString okHost 0, rec_duration = 25,
            rec_type = defaultTaskType\<rparr>]"
    using t1 p ok dt wd by (simp add: one)
  have b: "localHistory (onTimerComplete syncDownHost 1500000 exampleRunning) =
     Some [\<lparr>rec_id = 1500000, rec_date = isoDate syncDownHost 1500000,
            rec_startTime = timeString syncDownHost 0, rec_duration = 25,
            rec_type = defaultTaskType\<rparr>]"
    using t2 p down dt wd by (simp add: one)
  have c: "syncHistory (onTimerComplete okHost 2000000 initialService) =
     Some [\<lparr>rec_id = 2000000, rec_date = isoDate okHost 2000000,
            rec_startTime = timeString okHost 500000, rec_duration = 25,
            rec_type = defaultTaskType\<rparr>]"
    using t3 q ok dt wd by (simp add: one)
  have d: "currentPhase (timerState (onTimerComplete okHost 1500000 exampleRunning)) \<noteq> Work"
    using p by (simp add: timerState_onTimerComplete exampleRunning_eq)
  have e: "syncHistory (onTimerComplete okHost 1800000 (onTimerComplete okHost 1500000 exampleRunning)) =
     syncHistory (onTimerComplete okHost 1500000 exampleRunning)"
    using t4 d by blast
  show ?thesis
    using p(1,2) q(1,2) ok down a b c d e by blast
qed

subsection \<open>A change of settings\<close>

text \<open>
  Claim C9. The message \<open>UPDATE_SETTINGS\<close> changes the settings (and their stored copy)
  and nothing else: the timer state, the alarm, the session-start marker, the task type
  and the histories stay. The new durations are read where a full phase duration is
  looked up: by \<open>getCurrentPhaseDuration\<close>, and by the next completion, which sets
  \<open>timeRemaining\<close> from them.
\<close>

theorem update_settings_frame:
  "timerState (handleMessage h now (UPDATE_SETTINGS p) w) = timerState w \<and>
   alarm (handleMessage h now (UPDATE_SETTINGS p) w) = alarm w \<and>
   sessionStartTime (handleMessage h now (UPDATE_SETTINGS p) w) = sessionStartTime w \<and>
   currentTaskType (handleMessage h now (UPDATE_SETTINGS p) w) = currentTaskType w \<and>
   storedState (handleMessage h now (UPDATE_SETTINGS p) w) = storedState w \<and>
   syncHistory (handleMessage h now (UPDATE_SETTINGS p) w) = syncHistory w \<and>
   localHistory (handleMessage h now (UPDATE_SETTINGS p) w) = localHistory w \<and>
   settings (handleMessage h now (UPDATE_SETTINGS p) w) = mergeSettings (settings w) p \<and>
   getCurrentPhaseDuration (handleMessage h now (UPDATE_SETTINGS p) w) =
     (case currentPhase (timerState w) of
        Work \<Rightarrow> workDuration (mergeSettings (settings w) p) * 60
      | ShortBreak \<Rightarrow> shortBreakDuration (mergeSettings (settings w) p) * 60
      | LongBreak \<Rightarrow> longBreakDuration (mergeSettings (settings w) p) * 60) \<and>
   timeRemaining (timerState (onTimerComplete h' now' (handleMessage h now (UPDATE_SETTINGS p) w))) =
     getCurrentPhaseDuration
       (onTimerComplete h' now' (handleMessage h now (UPDATE_SETTINGS p) w))"
  by (cases "currentPhase (timerState w)")
    (simp_all add: saveSettings_def getCurrentPhaseDuration_def timerState_onTimerComplete
      settings_onTimerComplete)

subsection \<open>A running timer has time remaining\<close>

lemma positiveSettings_merge:
  "positiveSettings s \<Longrightarrow> positivePatch p \<Longrightarrow> positiveSettings (mergeSettings s p)"
  by (auto simp: positiveSettings_def positivePatch_def mergeSettings_def split: option.splits)

lemma runningPositive_settings:
  "runningPositive w \<Longrightarrow> positiveSettings s \<Longrightarrow> runningPositive (w\<lparr>settings := s\<rparr>)"
  by (simp add: runningPositive_def)

lemma runningPositive_onTimerComplete:
  "runningPositive w \<Longrightarrow> runningPositive (onTimerComplete h now w)"
  by (simp add: runningPositive_def onTimerComplete_def Let_def saveState_def
      moveToNextPhase_def recordCompletedPomodoro_def)

lemma runningPositive_startTimer:
  "runningPositive w \<Longrightarrow> runningPositive (startTimer h now w)"
  by (cases "currentPhase (timerState w)")
    (auto simp: runningPositive_def startTimer_def Let_def saveState_def startAlarm_def
      clearAlarm_def getCurrentPhaseDuration_def positiveSettings_def)

lemma runningPositive_updateTimeRemaining:
  "runningPositive w \<Longrightarrow> runningPositive (updateTimeRemaining h now w)"
proof -
  assume ok: "runningPositive w"
  have stop: "runningPositive (w\<lparr>timerState := (timerState w)\<lparr>timeRemaining := t\<rparr>\<rparr>)"
    if "isRunning (timerState w) \<longrightarrow> 0 < t" for t
    using ok that by (simp add: runningPositive_def)
  have comp: "runningPositive (onTimerComplete h now (w\<lparr>timerState := (timerState w)\<lparr>timeRemaining := t\<rparr>\<rparr>))"
    for t
    using ok by (simp add: runningPositive_def onTimerComplete_def Let_def saveState_def
        moveToNextPhase_def recordCompletedPomodoro_def)
  show ?thesis
    using ok by (auto simp: updateTimeRemaining_def Let_def stop comp split: option.splits)
qed

lemma runningPositive_startup:
  "runningPositive w \<Longrightarrow> runningPositive (startup h now w)"
proof -
  assume ok: "runningPositive w"
  let ?l = "loadSettings h (loadState h (constructor w))"
  have l: "runningPositive ?l"
    using ok
    by (auto simp: runningPositive_def loadSettings_def loadState_def constructor_def
        initialTimerState_def defaultSettings_def positiveSettings_def split: option.splits)
  have arm: "runningPositive (startAlarm t (?l\<lparr>timerState := (timerState ?l)\<lparr>timeRemaining := t\<rparr>\<rparr>))"
    if "0 < t" for t
    using l that by (simp add: runningPositive_def startAlarm_def clearAlarm_def)
  show ?thesis
    unfolding startup_def init_def restoreTimer_def Let_def
    using l by (simp add: arm runningPositive_onTimerComplete split: option.splits)
qed

lemma runningPositive_step:
  assumes "runningPositive w" and "positiveEvent ev"
  shows "runningPositive (step h now ev w)"
proof (cases ev)
  case (Message m)
  show ?thesis
  proof (cases m)
    case (START_TIMER ps)
    show ?thesis
    proof (cases ps)
      case None
      with START_TIMER Message assms show ?thesis
        by (simp add: runningPositive_startTimer)
    next
      case (Some p)
      with START_TIMER Message assms have "positivePatch p" by simp
      then have "runningPositive (w\<lparr>settings := mergeSettings (settings w) p\<rparr>)"
        using assms(1)
        by (simp add: runningPositive_settings positiveSettings_merge runningPositive_def)
      with Some START_TIMER Message show ?thesis
        by (simp add: runningPositive_startTimer)
    qed
  next
    case (UPDATE_SETTINGS p)
    with Message assms have "positivePatch p" by simp
    then have "positiveSettings (mergeSettings (settings w) p)"
      using assms(1) by (simp add: positiveSettings_merge runningPositive_def)
    with UPDATE_SETTINGS Message assms(1) show ?thesis
      by (simp add: saveSettings_def runningPositive_def)
  next
    case SKIP_PHASE
    have "runningPositive (clearAlarm w)"
      using assms(1) by (simp add: runningPositive_def clearAlarm_def)
    with SKIP_PHASE Message show ?thesis
      by (simp add: skipPhase_def runningPositive_onTimerComplete)
  qed (use Message assms(1) in \<open>simp_all add: runningPositive_def pauseTimer_def resetTimer_def
      Let_def saveState_def clearAlarm_def clearHistory_def\<close>)
next
  case AlarmFired
  have "runningPositive (w\<lparr>alarm := None\<rparr>)"
    using assms(1) by (simp add: runningPositive_def)
  with AlarmFired assms(1) show ?thesis
    by (simp add: runningPositive_onTimerComplete split: option.splits)
next
  case Tick
  with assms(1) show ?thesis by (simp add: runningPositive_updateTimeRemaining)
next
  case Restart
  with assms(1) show ?thesis by (simp add: runningPositive_startup)
qed

lemma reachablePositive_runningPositive: "reachablePositive w \<Longrightarrow> runningPositive w"
proof (induction rule: reachablePositive.induct)
  case reachablePositive_initial
  show ?case
    by (simp add: runningPositive_def initialService_def initialTimerState_def
        defaultSettings_def positiveSettings_def)
next
  case (reachablePositive_step w ev h now)
  then show ?case by (simp add: runningPositive_step)
qed

subsection \<open>Starting a timer that runs\<close>

text \<open>
  Claim C10. \<open>START_TIMER\<close> on a service that is running with time remaining is carried
  out: phase, cycle and \<open>timeRemaining\<close> stay, the timer still runs, \<open>endTime\<close> becomes
  \<open>now + timeRemaining * 1000\<close> and the alarm is armed again for \<open>timeRemaining\<close>
  seconds. If the old deadline was computed at \<open>t0\<close> from the same \<open>timeRemaining\<close>, the
  new one is later by \<open>now - t0\<close>. A running timer does have time remaining in every
  service reached through events with positive settings.
\<close>

theorem start_while_running:
  "(isRunning (timerState w) \<and> 0 < timeRemaining (timerState w) \<longrightarrow>
      handleMessage h now (START_TIMER None) w = startTimer h now w \<and>
      isRunning (timerState (startTimer h now w)) \<and>
      currentPhase (timerState (startTimer h now w)) = currentPhase (timerState w) \<and>
      currentCycle (timerState (startTimer h now w)) = currentCycle (timerState w) \<and>
      timeRemaining (timerState (startTimer h now w)) = timeRemaining (timerState w) \<and>
      endTime (timerState (startTimer h now w)) =
        Some (now + timeRemaining (timerState w) * 1000) \<and>
      alarm (startTimer h now w) = Some (timeRemaining (timerState w)) \<and>
      (\<forall>t0. endTime (timerState w) = Some (t0 + timeRemaining (timerState w) * 1000) \<longrightarrow>
         endTime (timerState (startTimer h now w)) =
           Some (t0 + timeRemaining (timerState w) * 1000 + (now - t0)))) \<and>
   (reachablePositive w \<and> isRunning (timerState w) \<longrightarrow> 0 < timeRemaining (timerState w))"
proof -
  have "0 < timeRemaining (timerState w)" if "reachablePositive w" "isRunning (timerState w)"
    using reachablePositive_runningPositive [OF that(1)] that(2)
    by (simp add: runningPositive_def)
  then show ?thesis
    by (simp add: startTimer_def Let_def saveState_def startAlarm_def clearAlarm_def)
qed

theorem start_while_running_witness:
  "reachablePositive exampleRunning \<and> isRunning (timerState exampleRunning) \<and>
   0 < timeRemaining (timerState exampleRunning) \<and>
   endTime (timerState exampleRunning) = Some (0 + timeRemaining (timerState exampleRunning) * 1000) \<and>
   handleMessage okHost 60000 (START_TIMER None) exampleRunning =
     startTimer okHost 60000 exampleRunning \<and>
   timeRemaining (timerState (startTimer okHost 60000 exampleRunning)) = 1500 \<and>
   endTime (timerState (startTimer okHost 60000 exampleRunning)) = Some 1560000 \<and>
   alarm (startTimer okHost 60000 exampleRunning) = Some 1500"
proof -
  have r: "reachablePositive exampleRunning"
    unfolding exampleRunning_def
    by (rule reachablePositive_step) (simp_all add: reachablePositive_initial)
  have a: "isRunning (timerState exampleRunning)" by (simp add: exampleRunning_eq)
  note t = start_while_running [of exampleRunning okHost 60000]
  from t r a have b: "0 < timeRemaining (timerState exampleRunning)" by blast
  have c: "timeRemaining (timerState exampleRunning) = 1500"
    "endTime (timerState exampleRunning) = Some 1500000"
    by (simp_all add: exampleRunning_eq)
  from t a b have
    "handleMessage okHost 60000 (START_TIMER None) exampleRunning =
       startTimer okHost 60000 exampleRunning \<and>
     timeRemaining (timerState (startTimer okHost 60000 exampleRunning)) =
       timeRemaining (timerState exampleRunning) \<and>
     endTime (timerState (startTimer okHost 60000 exampleRunning)) =
       Some (60000 + timeRemaining (timerState exampleRunning) * 1000) \<and>
     alarm (startTimer okHost 60000 exampleRunning) = Some (timeRemaining (timerState exampleRunning))"
    by blast
  then show ?thesis
    using r a b c by simp
qed

subsection \<open>Reset\<close>

text \<open>
  The claim C6 as it is written fails in its last part: a reset of the running example
  service leaves the session-start marker that the start had set.
\<close>

theorem reset_keeps_marker_counterexample:
  "sessionStartTime exampleRunning = Some 0 \<and>
   sessionStartTime (handleMessage okHost 60000 RESET_TIMER exampleRunning) = Some 0 \<and>
   sessionStartTime (handleMessage okHost 60000 RESET_TIMER exampleRunning) \<noteq> None"
  by (simp add: exampleRunning_eq resetTimer_def Let_def saveState_def clearAlarm_def)

text \<open>
  Claim C6, amended. \<open>resetTimer\<close>, from any service, gives the timer state with phase
  work, cycle 1, the work duration of the current settings as \<open>timeRemaining\<close>, not
  running and no \<open>endTime\<close>; it disarms the alarm and leaves the settings and the
  session-start marker as they were.
\<close>

theorem reset_state:
  "handleMessage h now RESET_TIMER w = resetTimer h w \<and>
   timerState (resetTimer h w) =
     \<lparr>isRunning = False, currentPhase = Work, currentCycle = 1,
      timeRemaining = workDuration (settings w) * 60, endTime = None\<rparr> \<and>
   alarm (resetTimer h w) = None \<and>
   settings (resetTimer h w) = settings w \<and>
   sessionStartTime (resetTimer h w) = sessionStartTime w"
  by (simp add: timerState_resetTimer) (simp add: resetTimer_def Let_def saveState_def clearAlarm_def)

subsection \<open>Two completions for one deadline\<close>

text \<open>
  Claim C3 says that a second \<open>onTimerComplete\<close> for the same deadline changes nothing.
  \<open>onTimerComplete\<close> has no test of \<open>isRunning\<close>; only the tick tests it before it
  completes. On the running example service, whose deadline is 1500000, the tick at
  1499500 sees no second left and completes the work phase; the alarm stays armed, and
  when it fires the break is completed as well, so the service is in work, cycle 2. The
  same holds of two direct calls.
\<close>

theorem tick_then_alarm_completes_twice:
  "isRunning (timerState exampleRunning) \<and> alarm exampleRunning = Some 1500 \<and>
   endTime (timerState exampleRunning) = Some 1500000 \<and>
   timerState (step okHost 1499500 Tick exampleRunning) =
     \<lparr>isRunning = False, currentPhase = ShortBreak, currentCycle = 1, timeRemaining = 300,
      endTime = None\<rparr> \<and>
   alarm (step okHost 1499500 Tick exampleRunning) = Some 1500 \<and>
   timerState (step okHost 1500000 AlarmFired (step okHost 1499500 Tick exampleRunning)) =
     \<lparr>isRunning = False, currentPhase = Work, currentCycle = 2, timeRemaining = 1500,
      endTime = None\<rparr> \<and>
   timerState (onTimerComplete okHost 1500000 exampleRunning) =
     \<lparr>isRunning = False, currentPhase = ShortBreak, currentCycle = 1, timeRemaining = 300,
      endTime = None\<rparr> \<and>
   timerState (onTimerComplete okHost 1500000 (onTimerComplete okHost 1500000 exampleRunning)) =
     \<lparr>isRunning = False, currentPhase = Work, currentCycle = 2, timeRemaining = 1500,
      endTime = None\<rparr>"
proof -
  have al: "alarm (onTimerComplete h now w) = alarm w" for h now w
    by (simp add: onTimerComplete_def Let_def saveState_def moveToNextPhase_def
        recordCompletedPomodoro_def)
  have tick: "step okHost 1499500 Tick exampleRunning =
      onTimerComplete okHost 1499500
        (exampleRunning\<lparr>timerState := (timerState exampleRunning)\<lparr>timeRemaining := 0\<rparr>\<rparr>)"
    by (simp add: updateTimeRemaining_def Let_def exampleRunning_eq truthyTime_def
        timeLeftAt_def)
  have ts1: "timerState (step okHost 1499500 Tick exampleRunning) =
     \<lparr>isRunning = False, currentPhase = ShortBreak, currentCycle = 1, timeRemaining = 300,
      endTime = None\<rparr>"
    unfolding tick
    by (simp add: timerState_onTimerComplete exampleRunning_eq defaultSettings_def)
  have al1: "alarm (step okHost 1499500 Tick exampleRunning) = Some 1500"
    unfolding tick by (simp add: al exampleRunning_eq)
  have set1: "settings (step okHost 1499500 Tick exampleRunning) = defaultSettings"
    unfolding tick by (simp add: settings_onTimerComplete exampleRunning_eq)
  define w1 where "w1 = step okHost 1499500 Tick exampleRunning"
  have "timerState (step okHost 1500000 AlarmFired w1) =
     \<lparr>isRunning = False, currentPhase = Work, currentCycle = 2, timeRemaining = 1500,
      endTime = None\<rparr>"
    using ts1 al1 set1 unfolding w1_def [symmetric]
    by (simp add: timerState_onTimerComplete defaultSettings_def)
  then have ts2: "timerState (step okHost 1500000 AlarmFired (step okHost 1499500 Tick exampleRunning)) =
     \<lparr>isRunning = False, currentPhase = Work, currentCycle = 2, timeRemaining = 1500,
      endTime = None\<rparr>"
    unfolding w1_def .
  have once: "timerState (onTimerComplete okHost 1500000 exampleRunning) =
     \<lparr>isRunning = False, currentPhase = ShortBreak, currentCycle = 1, timeRemaining = 300,
      endTime = None\<rparr>"
    by (simp add: timerState_onTimerComplete exampleRunning_eq defaultSettings_def)
  define c1 where "c1 = onTimerComplete okHost 1500000 exampleRunning"
  have set2: "settings c1 = defaultSettings"
    by (simp add: c1_def settings_onTimerComplete exampleRunning_eq)
  have "timerState (onTimerComplete okHost 1500000 c1) =
     \<lparr>isRunning = False, currentPhase = Work, currentCycle = 2, timeRemaining = 1500,
      endTime = None\<rparr>"
    using once set2 unfolding c1_def [symmetric]
    by (simp add: timerState_onTimerComplete defaultSettings_def)
  then have twice: "timerState (onTimerComplete okHost 1500000 (onTimerComplete okHost 1500000 exampleRunning)) =
     \<lparr>isRunning = False, currentPhase = Work, currentCycle = 2, timeRemaining = 1500,
      endTime = None\<rparr>"
    unfolding c1_def .
  show ?thesis
    using ts1 al1 ts2 once twice by (simp add: exampleRunning_eq)
qed

end
